theory Spec2Isabelle
  imports Complex_Main "HOL-Library.Multiset" "HOL-Library.Product_Lexorder"
begin

section \<open>Data model of index.js\<close>

text \<open>
  Timestamps are the millisecond values of the moment objects the code builds from the
  ISO strings of the GitHub API (\<open>moment(pr.created_at)\<close> and so on); an absent
  \<open>merged_at\<close> or \<open>closed_at\<close> (null or undefined, both falsy) is \<open>None\<close>.
  Every timestamp that is present is taken to be a valid date (the code treats a
  malformed record as a broken contract of the API).
  Counters are JavaScript numbers holding non-negative integers and are modelled as
  \<open>nat\<close>; hour totals are modelled as exact rationals (the rounding of IEEE doubles
  is not modelled). \<open>login\<close> stands for \<open>pr.user.login\<close>.
\<close>

record pull_request =
  number :: nat
  repoName :: string
  state :: string
  created_at :: int
  merged_at :: "int option"
  closed_at :: "int option"
  updated_at :: int
  login :: string

record pr_detail =
  totalComments :: nat
  reviewComments :: nat
  discussionComments :: nat
  reviews :: nat
  approvals :: nat
  changesRequested :: nat

subsection \<open>moment.js comparisons and differences\<close>

definition isAfter :: "int \<Rightarrow> int \<Rightarrow> bool" where
  "isAfter this input = (input < this)"

definition isBefore :: "int \<Rightarrow> int \<Rightarrow> bool" where
  "isBefore this input = (this < input)"

definition isSame :: "int \<Rightarrow> int \<Rightarrow> bool" where
  "isSame this input = (this = input)"

text \<open>\<open>created.isBetween(start, end, null, '[]')\<close>: both ends inclusive.\<close>

definition isBetween :: "int \<Rightarrow> int \<Rightarrow> int \<Rightarrow> bool" where
  "isBetween this from to =
     ((isSame this from \<or> isAfter this from) \<and> (isSame this to \<or> isBefore this to))"

text \<open>moment's \<open>absFloor\<close>: \<open>Math.ceil\<close> below zero, \<open>Math.floor\<close> otherwise.\<close>

definition absFloor :: "rat \<Rightarrow> int" where
  "absFloor x = (if x < 0 then \<lceil>x\<rceil> else \<lfloor>x\<rfloor>)"

text \<open>
  \<open>this.diff(input, 'hours', asFloat)\<close>: the millisecond difference over \<open>36e5\<close>,
  passed through \<open>absFloor\<close> unless \<open>asFloat\<close> is set.
\<close>

definition diff_hours :: "int \<Rightarrow> int \<Rightarrow> bool \<Rightarrow> rat" where
  "diff_hours this input asFloat =
     (let output = rat_of_int (this - input) / 3600000
      in if asFloat then output else rat_of_int (absFloor output))"

text \<open>\<open>moment(t).add(2, 'hours')\<close>.\<close>

definition add_hours :: "int \<Rightarrow> int \<Rightarrow> int" where
  "add_hours this n = this + n * 3600000"

subsection \<open>JavaScript numbers produced by a division\<close>

datatype jsnum = Num rat | NaN | PosInfinity | NegInfinity

text \<open>\<open>a / b\<close> on finite numbers: a zero divisor gives \<open>NaN\<close> or an infinity.\<close>

definition js_div :: "rat \<Rightarrow> rat \<Rightarrow> jsnum" where
  "js_div a b =
     (if b = 0 then (if a = 0 then NaN else if 0 < a then PosInfinity else NegInfinity)
      else Num (a / b))"

section \<open>fetchPRs and fetchPRDetails\<close>

text \<open>
  The Octokit client is an external collaborator: each of its calls either resolves with
  a \<open>data\<close> array or rejects. Only the length of the comment arrays and the
  \<open>state\<close> of each review are read.
\<close>

datatype api_error = ApiError string

record review =
  review_state :: string

record octokit =
  pulls_list :: "string \<Rightarrow> api_error + pull_request list"
  listComments :: "string \<Rightarrow> nat \<Rightarrow> api_error + string list"
  listReviewComments :: "string \<Rightarrow> nat \<Rightarrow> api_error + string list"
  listReviews :: "string \<Rightarrow> nat \<Rightarrow> api_error + review list"

text \<open>\<open>fetchPRs\<close>: the listed pull requests tagged with the repository, or \<open>[]\<close> on a failure.\<close>

definition fetchPRs :: "octokit \<Rightarrow> string \<Rightarrow> pull_request list" where
  "fetchPRs octo repo =
     (case pulls_list octo repo of
        Inr prs \<Rightarrow> map (\<lambda>pr. pr\<lparr>repoName := repo\<rparr>) prs
      | Inl error \<Rightarrow> [])"

definition zero_detail :: pr_detail where
  "zero_detail =
     \<lparr>totalComments = 0, reviewComments = 0, discussionComments = 0,
      reviews = 0, approvals = 0, changesRequested = 0\<rparr>"

text \<open>
  The body of the \<open>try\<close> block of \<open>fetchPRDetails\<close>: \<open>Promise.all\<close> over the three
  calls rejects as soon as one of them rejects (\<open>Inl\<close>); otherwise the counts are
  reduced into the detail record.
\<close>

definition try_details :: "octokit \<Rightarrow> string \<Rightarrow> nat \<Rightarrow> api_error + pr_detail" where
  "try_details octo repo prNumber =
     (case listComments octo repo prNumber of
        Inl e \<Rightarrow> Inl e
      | Inr comments \<Rightarrow>
     (case listReviewComments octo repo prNumber of
        Inl e \<Rightarrow> Inl e
      | Inr reviewComments' \<Rightarrow>
     (case listReviews octo repo prNumber of
        Inl e \<Rightarrow> Inl e
      | Inr reviews' \<Rightarrow>
          (let discussionComments' = length comments;
               reviewCommentsCount = length reviewComments';
               reviewsCount = length reviews';
               approvals' = length (filter (\<lambda>r. review_state r = ''APPROVED'') reviews');
               changesRequested' =
                 length (filter (\<lambda>r. review_state r = ''CHANGES_REQUESTED'') reviews')
           in Inr \<lparr>totalComments = discussionComments' + reviewCommentsCount,
                   reviewComments = reviewCommentsCount,
                   discussionComments = discussionComments',
                   reviews = reviewsCount,
                   approvals = approvals',
                   changesRequested = changesRequested'\<rparr>))))"

text \<open>
  One iteration of the \<open>for\<close> loop: the \<open>try\<close> block with its \<open>catch\<close>, which
  stores the all-zero record. An iteration that threw would return \<open>Inl\<close>.
\<close>

definition details_iteration ::
  "octokit \<Rightarrow> string \<Rightarrow> nat \<Rightarrow> (nat \<rightharpoonup> pr_detail) \<Rightarrow> api_error + (nat \<rightharpoonup> pr_detail)" where
  "details_iteration octo repo prNumber details =
     (case try_details octo repo prNumber of
        Inr d \<Rightarrow> Inr (details(prNumber \<mapsto> d))
      | Inl error \<Rightarrow> Inr (details(prNumber \<mapsto> zero_detail)))"

text \<open>The \<open>for ... of\<close> loop: an exception escaping an iteration ends the loop.\<close>

fun details_loop ::
  "octokit \<Rightarrow> string \<Rightarrow> nat list \<Rightarrow> (nat \<rightharpoonup> pr_detail) \<Rightarrow> api_error + (nat \<rightharpoonup> pr_detail)" where
  "details_loop octo repo [] details = Inr details"
| "details_loop octo repo (prNumber # rest) details =
     (case details_iteration octo repo prNumber details of
        Inl e \<Rightarrow> Inl e
      | Inr details' \<Rightarrow> details_loop octo repo rest details')"

definition fetchPRDetails ::
  "octokit \<Rightarrow> string \<Rightarrow> nat list \<Rightarrow> api_error + (nat \<rightharpoonup> pr_detail)" where
  "fetchPRDetails octo repo prNumbers = details_loop octo repo prNumbers Map.empty"

section \<open>calculatePRMetrics: metrics for a date range\<close>

record contributor =
  newPRs_c :: nat
  mergedPRs_c :: nat
  openPRs_c :: nat
  comments :: nat

record metrics =
  newPRs :: nat
  mergedPRs :: nat
  openPRs :: nat
  avgTimeToMerge :: jsnum
  avgTimeToFirstReview :: jsnum
  contributors :: "string \<rightharpoonup> contributor"

text \<open>The \<open>metrics\<close> object together with the four local accumulators of the function.\<close>

record calc_state = metrics +
  totalMergeTime_b :: rat
  totalFirstReviewTime :: rat
  mergedCount :: nat
  reviewedCount :: nat

text \<open>
  \<open>metrics.contributors\<close> is a plain object literal \<open>{}\<close>, so a property read
  \<open>metrics.contributors[contributor]\<close> that finds no own property goes on to
  \<open>Object.prototype\<close>. These are the property names found there; each holds a
  function (or, for \<open>__proto__\<close>, the prototype object), all truthy.
\<close>

definition objectPrototypeKeys :: "string list" where
  "objectPrototypeKeys =
     [''constructor'', ''__defineGetter__'', ''__defineSetter__'', ''hasOwnProperty'',
      ''__lookupGetter__'', ''__lookupSetter__'', ''isPrototypeOf'',
      ''propertyIsEnumerable'', ''toString'', ''valueOf'', ''__proto__'',
      ''toLocaleString'']"

datatype 'a property = Own 'a | Inherited | Undefined

definition get_property :: "(string \<rightharpoonup> 'a) \<Rightarrow> string \<Rightarrow> 'a property" where
  "get_property obj k =
     (case obj k of
        Some v \<Rightarrow> Own v
      | None \<Rightarrow> if k \<in> set objectPrototypeKeys then Inherited else Undefined)"

text \<open>\<open>!metrics.contributors[contributor]\<close>: only \<open>undefined\<close> is falsy here.\<close>

definition falsy :: "'a property \<Rightarrow> bool" where
  "falsy p = (case p of Undefined \<Rightarrow> True | _ \<Rightarrow> False)"

definition new_contributor :: contributor where
  "new_contributor = \<lparr>newPRs_c = 0, mergedPRs_c = 0, openPRs_c = 0, comments = 0\<rparr>"

text \<open>
  A write \<open>metrics.contributors[contributor].field = ...\<close> (or \<open>++\<close>). When the
  read resolves to an own record, that record is updated. When it resolves to an inherited
  built-in, the write lands on that built-in object, which is no part of the returned
  metrics: the own properties of \<open>contributors\<close> stay as they are. (The read cannot be
  \<open>undefined\<close> at a write: the record was created just before.)
\<close>

definition write_contributor ::
  "string \<Rightarrow> (contributor \<Rightarrow> contributor) \<Rightarrow> (string \<rightharpoonup> contributor) \<Rightarrow> (string \<rightharpoonup> contributor)" where
  "write_contributor k f cs =
     (case get_property cs k of
        Own c \<Rightarrow> cs(k \<mapsto> f c)
      | Inherited \<Rightarrow> cs
      | Undefined \<Rightarrow> cs)"

text \<open>The body of the \<open>for (const pr of prs)\<close> loop.\<close>

definition count_pr ::
  "int \<Rightarrow> int \<Rightarrow> (nat \<rightharpoonup> pr_detail) \<Rightarrow> pull_request \<Rightarrow> calc_state \<Rightarrow> calc_state" where
  "count_pr start end' prDetails pr s =
     (let created = created_at pr in
      if isBetween created start end' then
        let s1 = s\<lparr>newPRs := newPRs s + 1\<rparr>;
            contributor = login pr;
            s2 = (if falsy (get_property (contributors s1) contributor)
                  then s1\<lparr>contributors := (contributors s1)(contributor \<mapsto> new_contributor)\<rparr>
                  else s1);
            s3 = s2\<lparr>contributors :=
                      write_contributor contributor (\<lambda>c. c\<lparr>newPRs_c := newPRs_c c + 1\<rparr>)
                        (contributors s2)\<rparr>;
            s4 = (if state pr = ''open'' then
                    s3\<lparr>openPRs := openPRs s3 + 1,
                       contributors :=
                         write_contributor contributor (\<lambda>c. c\<lparr>openPRs_c := openPRs_c c + 1\<rparr>)
                           (contributors s3)\<rparr>
                  else
                    (case merged_at pr of
                       Some merged \<Rightarrow>
                         (let mergeTime = diff_hours merged created True
                          in s3\<lparr>mergedPRs := mergedPRs s3 + 1,
                                contributors :=
                                  write_contributor contributor
                                    (\<lambda>c. c\<lparr>mergedPRs_c := mergedPRs_c c + 1\<rparr>) (contributors s3),
                                totalMergeTime_b := totalMergeTime_b s3 + mergeTime,
                                mergedCount := mergedCount s3 + 1\<rparr>)
                     | None \<Rightarrow> s3))
        in (case prDetails (number pr) of
              Some details \<Rightarrow>
                (let s5 = s4\<lparr>contributors :=
                               write_contributor contributor
                                 (\<lambda>c. c\<lparr>comments := totalComments details\<rparr>) (contributors s4)\<rparr>
                 in if 0 < reviews details then
                      (let firstReview = add_hours (created_at pr) 2;
                           reviewTime = diff_hours firstReview created True
                       in s5\<lparr>totalFirstReviewTime := totalFirstReviewTime s5 + reviewTime,
                             reviewedCount := reviewedCount s5 + 1\<rparr>)
                    else s5)
            | None \<Rightarrow> s4)
      else s)"

definition initial_state :: calc_state where
  "initial_state =
     \<lparr>newPRs = 0, mergedPRs = 0, openPRs = 0, avgTimeToMerge = Num 0,
      avgTimeToFirstReview = Num 0, contributors = Map.empty,
      totalMergeTime_b = 0, totalFirstReviewTime = 0, mergedCount = 0, reviewedCount = 0\<rparr>"

text \<open>The loop over the fetched pull requests, from a given state.\<close>

definition count_prs ::
  "int \<Rightarrow> int \<Rightarrow> (nat \<rightharpoonup> pr_detail) \<Rightarrow> pull_request list \<Rightarrow> calc_state \<Rightarrow> calc_state" where
  "count_prs start end' prDetails prs s = fold (count_pr start end' prDetails) prs s"

text \<open>The two averages computed after the loop, and the returned \<open>metrics\<close> object.\<close>

definition finish :: "calc_state \<Rightarrow> metrics" where
  "finish s =
     metrics.truncate
       (s\<lparr>avgTimeToMerge :=
            (if 0 < mergedCount s then js_div (totalMergeTime_b s) (of_nat (mergedCount s))
             else Num 0),
          avgTimeToFirstReview :=
            (if 0 < reviewedCount s
             then js_div (totalFirstReviewTime s) (of_nat (reviewedCount s))
             else Num 0)\<rparr>)"

text \<open>\<open>calculatePRMetrics\<close> on pull requests and details already fetched.\<close>

definition metrics_of ::
  "pull_request list \<Rightarrow> (nat \<rightharpoonup> pr_detail) \<Rightarrow> int \<Rightarrow> int \<Rightarrow> metrics" where
  "metrics_of prs prDetails start end' = finish (count_prs start end' prDetails prs initial_state)"

text \<open>
  \<open>calculatePRMetrics\<close> with its two fetches (the \<open>owner\<close> argument is not read
  by the code). An error escaping \<open>fetchPRDetails\<close> would escape this function too.
\<close>

definition calculatePRMetrics ::
  "octokit \<Rightarrow> string \<Rightarrow> string \<Rightarrow> int \<Rightarrow> int \<Rightarrow> api_error + metrics" where
  "calculatePRMetrics octo owner repo start end' =
     (let prs = fetchPRs octo repo in
      case fetchPRDetails octo repo (map number prs) of
        Inl e \<Rightarrow> Inl e
      | Inr prDetails \<Rightarrow> Inr (metrics_of prs prDetails start end'))"

text \<open>
  \<open>generateReport\<close>, the summary line of the average time to merge.
  \<open>Number.prototype.toFixed\<close> is the language's own and is taken as a parameter.
\<close>

definition avgTimeToMerge_line :: "(jsnum \<Rightarrow> string) \<Rightarrow> metrics \<Rightarrow> string" where
  "avgTimeToMerge_line toFixed1 m =
     ''- Average Time to Merge: '' @
       (if avgTimeToMerge m = Num 0 then ''N/A'' else toFixed1 (avgTimeToMerge m) @ '' hours'')"

section \<open>generateWeeklyPRReport: the rolling week\<close>

record contributor_metrics =
  newPRsThisWeek :: nat
  mergedPRsThisWeek :: nat
  openPRs_w :: nat
  closedPRsThisWeek :: nat
  totalComments_w :: nat
  mergedPRCount :: nat
  totalMergeTime :: rat

text \<open>
  \<open>contributorMetrics\<close> is a \<open>Map\<close>: its entries are kept in insertion order, which
  \<open>Array.from(contributorMetrics.entries())\<close> reads back. It is modelled as a list of
  entries with one entry per key.
\<close>

definition map_has :: "('k \<times> 'v) list \<Rightarrow> 'k \<Rightarrow> bool" where
  "map_has m k = (k \<in> set (map fst m))"

fun map_set :: "'k \<Rightarrow> 'v \<Rightarrow> ('k \<times> 'v) list \<Rightarrow> ('k \<times> 'v) list" where
  "map_set k v [] = [(k, v)]"
| "map_set k v ((k', v') # m) = (if k' = k then (k, v) # m else (k', v') # map_set k v m)"

text \<open>Mutating the object that \<open>contributorMetrics.get(author)\<close> returns.\<close>

definition map_mutate :: "'k \<Rightarrow> ('v \<Rightarrow> 'v) \<Rightarrow> ('k \<times> 'v) list \<Rightarrow> ('k \<times> 'v) list" where
  "map_mutate k f m = map (\<lambda>(k', v). if k' = k then (k', f v) else (k', v)) m"

definition new_metrics :: contributor_metrics where
  "new_metrics =
     \<lparr>newPRsThisWeek = 0, mergedPRsThisWeek = 0, openPRs_w = 0, closedPRsThisWeek = 0,
      totalComments_w = 0, mergedPRCount = 0, totalMergeTime = 0\<rparr>"

text \<open>The last branch of the state chain: closed this week without a merge.\<close>

definition track_closed :: "int \<Rightarrow> pull_request \<Rightarrow> contributor_metrics \<Rightarrow> contributor_metrics" where
  "track_closed lastWeekDate pr m =
     (if (case closed_at pr of Some closedAt \<Rightarrow> isAfter closedAt lastWeekDate | None \<Rightarrow> False)
         \<and> merged_at pr = None
      then m\<lparr>closedPRsThisWeek := closedPRsThisWeek m + 1\<rparr>
      else m)"

text \<open>\<open>if (pr.state === 'open') ... else if (mergedAt && mergedAt.isAfter(lastWeekDate)) ... else if ...\<close>\<close>

definition track_state :: "int \<Rightarrow> pull_request \<Rightarrow> contributor_metrics \<Rightarrow> contributor_metrics" where
  "track_state lastWeekDate pr m =
     (if state pr = ''open'' then m\<lparr>openPRs_w := openPRs_w m + 1\<rparr>
      else
        (case merged_at pr of
           Some mergedAt \<Rightarrow>
             if isAfter mergedAt lastWeekDate then
               (let timeToMerge = diff_hours mergedAt (created_at pr) False
                in m\<lparr>mergedPRsThisWeek := mergedPRsThisWeek m + 1,
                     totalMergeTime := totalMergeTime m + timeToMerge,
                     mergedPRCount := mergedPRCount m + 1\<rparr>)
             else track_closed lastWeekDate pr m
         | None \<Rightarrow> track_closed lastWeekDate pr m))"

definition track_new :: "int \<Rightarrow> pull_request \<Rightarrow> contributor_metrics \<Rightarrow> contributor_metrics" where
  "track_new lastWeekDate pr m =
     (if isAfter (created_at pr) lastWeekDate
      then m\<lparr>newPRsThisWeek := newPRsThisWeek m + 1\<rparr>
      else m)"

definition add_comments ::
  "(string \<rightharpoonup> (nat \<rightharpoonup> pr_detail)) \<Rightarrow> pull_request \<Rightarrow> contributor_metrics \<Rightarrow> contributor_metrics" where
  "add_comments prDetailsByRepo pr m =
     (case prDetailsByRepo (repoName pr) of
        Some repoDetails \<Rightarrow>
          (case repoDetails (number pr) of
             Some details \<Rightarrow> m\<lparr>totalComments_w := totalComments_w m + totalComments details\<rparr>
           | None \<Rightarrow> m)
      | None \<Rightarrow> m)"

text \<open>The body of the \<open>for (const pr of allPRs)\<close> loop.\<close>

definition process_pr ::
  "int \<Rightarrow> (string \<rightharpoonup> (nat \<rightharpoonup> pr_detail)) \<Rightarrow> pull_request \<Rightarrow>
   (string \<times> contributor_metrics) list \<Rightarrow> (string \<times> contributor_metrics) list" where
  "process_pr lastWeekDate prDetailsByRepo pr contributorMetrics =
     (let author = login pr;
          cm = (if \<not> map_has contributorMetrics author
                then map_set author new_metrics contributorMetrics
                else contributorMetrics)
      in map_mutate author
           (\<lambda>m. add_comments prDetailsByRepo pr
                  (track_state lastWeekDate pr (track_new lastWeekDate pr m)))
           cm)"

definition process_prs ::
  "int \<Rightarrow> (string \<rightharpoonup> (nat \<rightharpoonup> pr_detail)) \<Rightarrow> pull_request list \<Rightarrow>
   (string \<times> contributor_metrics) list" where
  "process_prs lastWeekDate prDetailsByRepo allPRs =
     fold (process_pr lastWeekDate prDetailsByRepo) allPRs []"

subsection \<open>Ranking\<close>

text \<open>The comparator passed to \<open>sort\<close>, on the metrics of two entries.\<close>

definition compare_metrics :: "contributor_metrics \<Rightarrow> contributor_metrics \<Rightarrow> int" where
  "compare_metrics a b =
     (if mergedPRsThisWeek a \<noteq> mergedPRsThisWeek b
      then int (mergedPRsThisWeek b) - int (mergedPRsThisWeek a)
      else if newPRsThisWeek a \<noteq> newPRsThisWeek b
      then int (newPRsThisWeek b) - int (newPRsThisWeek a)
      else int (openPRs_w b) - int (openPRs_w a))"

text \<open>
  \<open>Array.prototype.sort\<close> with a comparator is a stable sort (ECMAScript 2019): an
  element moves behind another only when the comparator puts it strictly after. It is
  modelled by a stable insertion sort driven by the comparator's sign.
\<close>

fun insert_sorted :: "('a \<Rightarrow> 'a \<Rightarrow> int) \<Rightarrow> 'a \<Rightarrow> 'a list \<Rightarrow> 'a list" where
  "insert_sorted cmp x [] = [x]"
| "insert_sorted cmp x (y # ys) =
     (if cmp x y \<le> 0 then x # y # ys else y # insert_sorted cmp x ys)"

definition array_sort :: "('a \<Rightarrow> 'a \<Rightarrow> int) \<Rightarrow> 'a list \<Rightarrow> 'a list" where
  "array_sort cmp xs = foldr (insert_sorted cmp) xs []"

definition sortedContributors ::
  "(string \<times> contributor_metrics) list \<Rightarrow> (string \<times> contributor_metrics) list" where
  "sortedContributors contributorMetrics =
     array_sort (\<lambda>(_, a) (_, b). compare_metrics a b) contributorMetrics"

subsection \<open>Table rows and totals\<close>

definition avgTimeToMerge_cell :: "(jsnum \<Rightarrow> string) \<Rightarrow> contributor_metrics \<Rightarrow> string" where
  "avgTimeToMerge_cell toFixed1 m =
     (if 0 < mergedPRCount m
      then toFixed1 (js_div (totalMergeTime m) (of_nat (mergedPRCount m)))
      else ''0.0'')"

definition avgComments_cell :: "(jsnum \<Rightarrow> string) \<Rightarrow> contributor_metrics \<Rightarrow> string" where
  "avgComments_cell toFixed1 m =
     (let totalPRsWithActivity = newPRsThisWeek m + mergedPRsThisWeek m + closedPRsThisWeek m
      in if 0 < totalPRsWithActivity
         then toFixed1 (js_div (of_nat (totalComments_w m)) (of_nat totalPRsWithActivity))
         else ''0.0'')"

text \<open>The summary: the field-wise sum of all contributor records.\<close>

definition totalMetrics :: "(string \<times> contributor_metrics) list \<Rightarrow> contributor_metrics" where
  "totalMetrics contributorMetrics =
     fold (\<lambda>curr acc.
             \<lparr>newPRsThisWeek = newPRsThisWeek acc + newPRsThisWeek curr,
              mergedPRsThisWeek = mergedPRsThisWeek acc + mergedPRsThisWeek curr,
              openPRs_w = openPRs_w acc + openPRs_w curr,
              closedPRsThisWeek = closedPRsThisWeek acc + closedPRsThisWeek curr,
              totalComments_w = totalComments_w acc + totalComments_w curr,
              mergedPRCount = mergedPRCount acc + mergedPRCount curr,
              totalMergeTime = totalMergeTime acc + totalMergeTime curr\<rparr>)
          (map snd contributorMetrics) new_metrics"

definition overallAvgTimeToMerge ::
  "(jsnum \<Rightarrow> string) \<Rightarrow> (string \<times> contributor_metrics) list \<Rightarrow> string" where
  "overallAvgTimeToMerge toFixed1 contributorMetrics =
     avgTimeToMerge_cell toFixed1 (totalMetrics contributorMetrics)"

section \<open>The properties, in the specification's terms\<close>

subsection \<open>Date range\<close>

text \<open>A pull request is new when its creation time lies in the inclusive range.\<close>

definition in_range :: "int \<Rightarrow> int \<Rightarrow> pull_request \<Rightarrow> bool" where
  "in_range start end' pr = (start \<le> created_at pr \<and> created_at pr \<le> end')"

text \<open>The new pull requests of one author handle, in the order they are examined.\<close>

definition new_by :: "int \<Rightarrow> int \<Rightarrow> string \<Rightarrow> pull_request list \<Rightarrow> pull_request list" where
  "new_by start end' h prs = filter (\<lambda>pr. in_range start end' pr \<and> login pr = h) prs"

text \<open>
  The \<open>totalComments\<close> of the last pull request of a list that has a detail record,
  and \<open>0\<close> when none has.
\<close>

definition last_comments :: "(nat \<rightharpoonup> pr_detail) \<Rightarrow> pull_request list \<Rightarrow> nat" where
  "last_comments prDetails prs =
     (case rev (filter (\<lambda>pr. prDetails (number pr) \<noteq> None) prs) of
        [] \<Rightarrow> 0
      | pr # _ \<Rightarrow>
          (case prDetails (number pr) of Some details \<Rightarrow> totalComments details | None \<Rightarrow> 0))"

text \<open>The record a contributor is expected to end with, from the contributor's new pull requests.\<close>

definition expected_contributor :: "(nat \<rightharpoonup> pr_detail) \<Rightarrow> pull_request list \<Rightarrow> contributor" where
  "expected_contributor prDetails mine =
     \<lparr>newPRs_c = length mine,
      mergedPRs_c = length (filter (\<lambda>pr. state pr \<noteq> ''open'' \<and> merged_at pr \<noteq> None) mine),
      openPRs_c = length (filter (\<lambda>pr. state pr = ''open'') mine),
      comments = last_comments prDetails mine\<rparr>"

text \<open>What one new pull request does to its author's record.\<close>

definition step_contributor :: "(nat \<rightharpoonup> pr_detail) \<Rightarrow> pull_request \<Rightarrow> contributor \<Rightarrow> contributor" where
  "step_contributor prDetails pr c =
     \<lparr>newPRs_c = newPRs_c c + 1,
      mergedPRs_c = mergedPRs_c c + (if state pr \<noteq> ''open'' \<and> merged_at pr \<noteq> None then 1 else 0),
      openPRs_c = openPRs_c c + (if state pr = ''open'' then 1 else 0),
      comments =
        (case prDetails (number pr) of
           Some details \<Rightarrow> totalComments details
         | None \<Rightarrow> comments c)\<rparr>"

subsection \<open>Rolling week\<close>

text \<open>The four classes of a pull request in the rolling week, as the specification lists them.\<close>

datatype pr_class = CountedOpen | MergedThisWeek | ClosedThisWeek | NotCounted

definition classify :: "int \<Rightarrow> pull_request \<Rightarrow> pr_class" where
  "classify windowStart pr =
     (if state pr = ''open'' then CountedOpen
      else if (case merged_at pr of Some t \<Rightarrow> windowStart < t | None \<Rightarrow> False)
      then MergedThisWeek
      else if (case closed_at pr of Some t \<Rightarrow> windowStart < t | None \<Rightarrow> False)
              \<and> merged_at pr = None
      then ClosedThisWeek
      else NotCounted)"

text \<open>Whole hours between two millisecond timestamps, truncated toward zero.\<close>

definition truncated_hours :: "int \<Rightarrow> int \<Rightarrow> int" where
  "truncated_hours later earlier = sgn (later - earlier) * (\<bar>later - earlier\<bar> div 3600000)"

definition merge_hours :: "pull_request \<Rightarrow> int" where
  "merge_hours pr =
     (case merged_at pr of Some t \<Rightarrow> truncated_hours t (created_at pr) | None \<Rightarrow> 0)"

text \<open>The record of an author before a pull request is processed: the stored one, or a fresh one.\<close>

definition entry_before :: "(string \<times> contributor_metrics) list \<Rightarrow> string \<Rightarrow> contributor_metrics" where
  "entry_before cm author = (case map_of cm author of Some m \<Rightarrow> m | None \<Rightarrow> new_metrics)"

text \<open>
  The ranking policy: \<open>a\<close> ranks strictly above \<open>b\<close> by merged pull requests, then
  new ones, then open ones, each descending.
\<close>

definition outranks :: "contributor_metrics \<Rightarrow> contributor_metrics \<Rightarrow> bool" where
  "outranks a b =
     (mergedPRsThisWeek b < mergedPRsThisWeek a \<or>
      (mergedPRsThisWeek a = mergedPRsThisWeek b \<and>
       (newPRsThisWeek b < newPRsThisWeek a \<or>
        (newPRsThisWeek a = newPRsThisWeek b \<and> openPRs_w b < openPRs_w a))))"

definition rank_keys :: "contributor_metrics \<Rightarrow> nat \<times> nat \<times> nat" where
  "rank_keys m = (mergedPRsThisWeek m, newPRsThisWeek m, openPRs_w m)"

text \<open>The three keys negated, so that the lexicographic order on triples is the ranking.\<close>

definition sort_key_of :: "string \<times> contributor_metrics \<Rightarrow> int \<times> int \<times> int" where
  "sort_key_of e =
     (- int (mergedPRsThisWeek (snd e)), - int (newPRsThisWeek (snd e)),
      - int (openPRs_w (snd e)))"

subsection \<open>Detail fetches\<close>

text \<open>The detail fetch of a pull request fails when one of its three calls rejects.\<close>

definition fetch_fails :: "octokit \<Rightarrow> string \<Rightarrow> nat \<Rightarrow> bool" where
  "fetch_fails octo repo n =
     (isl (listComments octo repo n) \<or> isl (listReviewComments octo repo n)
      \<or> isl (listReviews octo repo n))"

text \<open>Two clients that answer alike for one pull request number.\<close>

definition same_responses :: "octokit \<Rightarrow> octokit \<Rightarrow> string \<Rightarrow> nat \<Rightarrow> bool" where
  "same_responses octo octo' repo n =
     (listComments octo' repo n = listComments octo repo n \<and>
      listReviewComments octo' repo n = listReviewComments octo repo n \<and>
      listReviews octo' repo n = listReviews octo repo n)"

definition detail_for :: "octokit \<Rightarrow> string \<Rightarrow> nat \<Rightarrow> pr_detail" where
  "detail_for octo repo n =
     (case try_details octo repo n of Inr d \<Rightarrow> d | Inl e \<Rightarrow> zero_detail)"

subsection \<open>Example inputs\<close>

definition pr_example ::
  "nat \<Rightarrow> string \<Rightarrow> string \<Rightarrow> int \<Rightarrow> int option \<Rightarrow> int option \<Rightarrow> pull_request" where
  "pr_example n author st created merged closed' =
     \<lparr>number = n, repoName = ''repo1'', state = st, created_at = created, merged_at = merged,
      closed_at = closed', updated_at = created, login = author\<rparr>"

definition detail_example :: "nat \<Rightarrow> pr_detail" where
  "detail_example n = zero_detail\<lparr>totalComments := n, discussionComments := n\<rparr>"

definition metrics_example :: "nat \<Rightarrow> nat \<Rightarrow> nat \<Rightarrow> contributor_metrics" where
  "metrics_example merged new open' =
     new_metrics\<lparr>newPRsThisWeek := new, mergedPRsThisWeek := merged, openPRs_w := open',
       mergedPRCount := merged\<rparr>"

text \<open>A client whose comment fetch rejects for pull request 123 only.\<close>

definition octokit_example :: octokit where
  "octokit_example =
     \<lparr>pulls_list = (\<lambda>repo. Inr []),
      listComments =
        (\<lambda>repo n. if n = 123 then Inl (ApiError ''API Error'') else Inr [''c1'', ''c2'']),
      listReviewComments = (\<lambda>repo n. Inr [''r1'']),
      listReviews =
        (\<lambda>repo n. Inr [\<lparr>review_state = ''APPROVED''\<rparr>,
                       \<lparr>review_state = ''CHANGES_REQUESTED''\<rparr>])\<rparr>"

text \<open>A client that answers as the one above for pull request 7 and rejects elsewhere.\<close>

definition octokit_failing_others :: octokit where
  "octokit_failing_others =
     \<lparr>pulls_list = (\<lambda>repo. Inl (ApiError ''down'')),
      listComments =
        (\<lambda>repo n. if n = 7 then Inr [''c1'', ''c2''] else Inl (ApiError ''down'')),
      listReviewComments = (\<lambda>repo n. if n = 7 then Inr [''r1''] else Inl (ApiError ''down'')),
      listReviews =
        (\<lambda>repo n. Inr [\<lparr>review_state = ''APPROVED''\<rparr>,
                       \<lparr>review_state = ''CHANGES_REQUESTED''\<rparr>])\<rparr>"

text \<open>
  The client of the repository's test of \<open>calculatePRMetrics\<close>: two pull requests
  created on 2024-02-01 10:00 UTC, the second merged a day later; the detail calls are
  not mocked there, so each of them fails.
\<close>

definition octokit_test :: octokit where
  "octokit_test =
     \<lparr>pulls_list =
        (\<lambda>repo. Inr [pr_example 1 ''user1'' ''open'' 1706781600000 None None,
                     pr_example 2 ''user2'' ''closed'' 1706781600000 (Some 1706868000000) None]),
      listComments = (\<lambda>repo n. Inl (ApiError ''not mocked'')),
      listReviewComments = (\<lambda>repo n. Inl (ApiError ''not mocked'')),
      listReviews = (\<lambda>repo n. Inl (ApiError ''not mocked''))\<rparr>"

section \<open>Lemmas on the date-range metrics\<close>

lemmas ex_defs =
  pr_example_def detail_example_def metrics_example_def zero_detail_def new_metrics_def


lemma isBetween_iff: "isBetween (created_at pr) a b = in_range a b pr"
  by (auto simp: isBetween_def isSame_def isAfter_def isBefore_def in_range_def)

lemma finish_fields:
  "newPRs (finish s) = newPRs s" "mergedPRs (finish s) = mergedPRs s"
  "openPRs (finish s) = openPRs s" "contributors (finish s) = contributors s"
  by (simp_all add: finish_def metrics.truncate_def)

lemma count_prs_snoc:
  "count_prs a b d (prs @ [pr]) s = count_pr a b d pr (count_prs a b d prs s)"
  by (simp add: count_prs_def)

lemma count_prs_append:
  "count_prs a b d (xs @ ys) s = count_prs a b d ys (count_prs a b d xs s)"
  by (simp add: count_prs_def)

lemma count_pr_out: "\<not> isBetween (created_at pr) a b \<Longrightarrow> count_pr a b d pr s = s"
  by (simp add: count_pr_def Let_def)

lemma count_pr_newPRs:
  "newPRs (count_pr a b d pr s) = newPRs s + (if isBetween (created_at pr) a b then 1 else 0)"
  by (simp add: count_pr_def Let_def split: option.split)

lemma count_prs_newPRs:
  "newPRs (count_prs a b d prs s) =
     newPRs s + length (filter (\<lambda>pr. isBetween (created_at pr) a b) prs)"
proof (induction prs rule: rev_induct)
  case Nil
  then show ?case by (simp add: count_prs_def)
next
  case (snoc pr prs)
  then show ?case by (simp add: count_prs_snoc count_pr_newPRs)
qed

lemma count_pr_merged_open:
  "mergedPRs (count_pr a b d pr s) + openPRs (count_pr a b d pr s)
     \<le> mergedPRs s + openPRs s + (if isBetween (created_at pr) a b then 1 else 0)"
  by (simp add: count_pr_def Let_def split: option.split)

lemma count_pr_headroom:
  "mergedPRs s + openPRs s \<le> newPRs s \<Longrightarrow>
   mergedPRs (count_pr a b d pr s) + openPRs (count_pr a b d pr s) \<le> newPRs (count_pr a b d pr s)"
  using count_pr_merged_open[of a b d pr s] count_pr_newPRs[of a b d pr s]
  by (simp split: if_splits)

lemma count_prs_headroom:
  "mergedPRs s + openPRs s \<le> newPRs s \<Longrightarrow>
   mergedPRs (count_prs a b d prs s) + openPRs (count_prs a b d prs s)
     \<le> newPRs (count_prs a b d prs s)"
proof (induction prs rule: rev_induct)
  case Nil
  then show ?case by (simp add: count_prs_def)
next
  case (snoc pr prs)
  then show ?case by (simp add: count_prs_snoc count_pr_headroom)
qed

lemma metrics_of_headroom:
  "mergedPRs (metrics_of prs d a b) + openPRs (metrics_of prs d a b) \<le> newPRs (metrics_of prs d a b)"
  using count_prs_headroom[of initial_state a b d prs]
  by (simp add: metrics_of_def finish_fields initial_state_def)

subsection \<open>The contributor table\<close>

lemma write_contributor_other: "h \<noteq> k \<Longrightarrow> write_contributor k f cs h = cs h"
  by (simp add: write_contributor_def get_property_def split: option.split)

lemma write_contributor_own: "cs k = Some c \<Longrightarrow> write_contributor k f cs = cs(k \<mapsto> f c)"
  by (simp add: write_contributor_def get_property_def)

lemma write_contributor_none: "cs k = None \<Longrightarrow> write_contributor k f cs = cs"
  by (simp add: write_contributor_def get_property_def)

text \<open>After the creation step the property read is never \<open>undefined\<close>.\<close>

lemma created_record_is_read:
  "\<not> falsy (get_property
      (if falsy (get_property cs k) then cs(k \<mapsto> new_contributor) else cs) k)"
  by (simp add: falsy_def get_property_def split: option.split)

lemma count_pr_contributors_other:
  "h \<noteq> login pr \<Longrightarrow> contributors (count_pr a b d pr s) h = contributors s h"
  by (simp add: count_pr_def Let_def write_contributor_other split: option.split)

lemma count_pr_contributors_own:
  assumes "isBetween (created_at pr) a b" "contributors s (login pr) = Some c"
  shows "contributors (count_pr a b d pr s) (login pr) = Some (step_contributor d pr c)"
  using assms
  by (simp add: count_pr_def Let_def write_contributor_own get_property_def falsy_def
      step_contributor_def split: option.split)

lemma count_pr_contributors_inherited:
  assumes "contributors s (login pr) = None" "login pr \<in> set objectPrototypeKeys"
  shows "contributors (count_pr a b d pr s) (login pr) = None"
  using assms
  by (simp add: count_pr_def Let_def write_contributor_none get_property_def falsy_def
      split: option.split)

lemma count_pr_contributors_fresh:
  assumes "isBetween (created_at pr) a b" "contributors s (login pr) = None"
    "login pr \<notin> set objectPrototypeKeys"
  shows "contributors (count_pr a b d pr s) (login pr) = Some (step_contributor d pr new_contributor)"
  using assms
  by (simp add: count_pr_def Let_def write_contributor_own get_property_def falsy_def
      step_contributor_def split: option.split)

lemma expected_nil: "expected_contributor d [] = new_contributor"
  by (simp add: expected_contributor_def new_contributor_def last_comments_def)

lemma last_comments_snoc:
  "last_comments d (xs @ [pr]) =
     (case d (number pr) of Some details \<Rightarrow> totalComments details | None \<Rightarrow> last_comments d xs)"
  by (simp add: last_comments_def split: option.split)

lemma expected_snoc:
  "expected_contributor d (xs @ [pr]) = step_contributor d pr (expected_contributor d xs)"
  by (cases "d (number pr)")
    (simp_all add: expected_contributor_def step_contributor_def last_comments_snoc)

lemma expected_single:
  "expected_contributor d [pr] = step_contributor d pr new_contributor"
  using expected_snoc[of d "[]" pr] by (simp add: expected_nil)

lemma new_by_snoc:
  "new_by a b h (prs @ [pr]) =
     (if in_range a b pr \<and> login pr = h then new_by a b h prs @ [pr] else new_by a b h prs)"
  by (simp add: new_by_def)

text \<open>
  The contributor table after the loop: a handle that names a property of
  \<open>Object.prototype\<close> never gets a record; every other handle with a new pull request
  gets the expected one.
\<close>

lemma contributors_char:
  "contributors (count_prs a b d prs initial_state) h =
     (if h \<in> set objectPrototypeKeys \<or> new_by a b h prs = [] then None
      else Some (expected_contributor d (new_by a b h prs)))"
proof (induction prs rule: rev_induct)
  case Nil
  then show ?case by (simp add: count_prs_def initial_state_def new_by_def)
next
  case (snoc pr prs)
  let ?s = "count_prs a b d prs initial_state"
  show ?case
  proof (cases "in_range a b pr \<and> login pr = h")
    case False
    then have "contributors (count_pr a b d pr ?s) h = contributors ?s h"
      by (cases "login pr = h") (auto simp: count_pr_out isBetween_iff count_pr_contributors_other)
    moreover from False have "new_by a b h (prs @ [pr]) = new_by a b h prs"
      by (simp add: new_by_snoc)
    ultimately show ?thesis using snoc by (simp add: count_prs_snoc)
  next
    case mine: True
    then have r: "isBetween (created_at pr) a b" and h: "login pr = h"
      by (simp_all add: isBetween_iff)
    show ?thesis
    proof (cases "h \<in> set objectPrototypeKeys")
      case True
      with snoc have "contributors ?s (login pr) = None" by (simp add: h)
      from count_pr_contributors_inherited[OF this] True h
      show ?thesis by (simp add: count_prs_snoc)
    next
      case False
      show ?thesis
      proof (cases "new_by a b h prs = []")
        case True
        with snoc have "contributors ?s (login pr) = None" by (simp add: h)
        from count_pr_contributors_fresh[OF r this] False h True mine
        show ?thesis by (simp add: count_prs_snoc new_by_snoc expected_single)
      next
        case ne: False
        with snoc False
        have "contributors ?s (login pr) = Some (expected_contributor d (new_by a b h prs))"
          by (simp add: h)
        from count_pr_contributors_own[OF r this] False h ne mine
        show ?thesis by (simp add: count_prs_snoc new_by_snoc expected_snoc)
      qed
    qed
  qed
qed

lemma metrics_of_contributors:
  "contributors (metrics_of prs d a b) h =
     (if h \<in> set objectPrototypeKeys \<or> new_by a b h prs = [] then None
      else Some (expected_contributor d (new_by a b h prs)))"
  by (simp add: metrics_of_def finish_fields contributors_char)

text \<open>The total of new pull requests is the number created in the range.\<close>

lemma newPRs_counts_range:
  "newPRs (metrics_of prs d a b) = length (filter (in_range a b) prs)"
  by (simp add: metrics_of_def finish_fields count_prs_newPRs initial_state_def isBetween_iff)

text \<open>
  For a handle that names no property of \<open>Object.prototype\<close>, the contributor's count
  is the number of new pull requests of that handle.
\<close>

lemma contributor_newPRs_counts:
  "h \<notin> set objectPrototypeKeys \<Longrightarrow>
   (case contributors (metrics_of prs d a b) h of Some c \<Rightarrow> newPRs_c c | None \<Rightarrow> 0)
     = length (new_by a b h prs)"
  by (simp add: metrics_of_contributors expected_contributor_def)

section \<open>Lemmas on the rolling week\<close>

subsection \<open>Truncated hours\<close>

lemma absFloor_div: "absFloor (rat_of_int x / 3600000) = sgn x * (\<bar>x\<bar> div 3600000)"
proof (cases "x < 0")
  case True
  then have "rat_of_int x / 3600000 < 0" by simp
  moreover have "\<lceil>rat_of_int x / 3600000\<rceil> = - \<lfloor>rat_of_int (- x) / 3600000\<rfloor>"
    by (simp add: ceiling_def)
  moreover have "\<lfloor>rat_of_int (- x) / 3600000\<rfloor> = (- x) div 3600000"
    using floor_divide_of_int_eq[of "- x" 3600000, where ?'a = rat] by simp
  ultimately show ?thesis using True by (simp add: absFloor_def)
next
  case False
  then have "\<not> rat_of_int x / 3600000 < 0" by simp
  moreover have "\<lfloor>rat_of_int x / 3600000\<rfloor> = x div 3600000"
    using floor_divide_of_int_eq[of x 3600000, where ?'a = rat] by simp
  ultimately show ?thesis using False by (cases "x = 0") (simp_all add: absFloor_def)
qed

lemma diff_hours_truncated: "diff_hours t c False = rat_of_int (truncated_hours t c)"
  by (simp add: diff_hours_def truncated_hours_def absFloor_div Let_def del: of_int_diff)

subsection \<open>One pull request\<close>

lemma track_state_class:
  "track_state w pr m =
     (case classify w pr of
        CountedOpen \<Rightarrow> m\<lparr>openPRs_w := openPRs_w m + 1\<rparr>
      | MergedThisWeek \<Rightarrow>
          m\<lparr>mergedPRsThisWeek := mergedPRsThisWeek m + 1,
            totalMergeTime := totalMergeTime m + rat_of_int (merge_hours pr),
            mergedPRCount := mergedPRCount m + 1\<rparr>
      | ClosedThisWeek \<Rightarrow> m\<lparr>closedPRsThisWeek := closedPRsThisWeek m + 1\<rparr>
      | NotCounted \<Rightarrow> m)"
  by (auto simp: track_state_def track_closed_def classify_def isAfter_def Let_def
      merge_hours_def diff_hours_truncated split: option.splits)

lemma add_comments_fields:
  "mergedPRCount (add_comments d pr m) = mergedPRCount m"
  "mergedPRsThisWeek (add_comments d pr m) = mergedPRsThisWeek m"
  "totalMergeTime (add_comments d pr m) = totalMergeTime m"
  "openPRs_w (add_comments d pr m) = openPRs_w m"
  "closedPRsThisWeek (add_comments d pr m) = closedPRsThisWeek m"
  "newPRsThisWeek (add_comments d pr m) = newPRsThisWeek m"
  by (simp_all add: add_comments_def split: option.split)

lemma track_new_fields:
  "mergedPRCount (track_new w pr m) = mergedPRCount m"
  "mergedPRsThisWeek (track_new w pr m) = mergedPRsThisWeek m"
  "totalMergeTime (track_new w pr m) = totalMergeTime m"
  "openPRs_w (track_new w pr m) = openPRs_w m"
  "closedPRsThisWeek (track_new w pr m) = closedPRsThisWeek m"
  "totalComments_w (track_new w pr m) = totalComments_w m"
  by (simp_all add: track_new_def)

lemma map_of_map_mutate:
  "map_of (map_mutate k f m) k' = (if k' = k then map_option f (map_of m k) else map_of m k')"
  by (induction m) (auto simp: map_mutate_def)

lemma map_of_map_set: "map_of (map_set k v m) k' = (if k' = k then Some v else map_of m k')"
  by (induction m) auto

lemma map_has_iff: "map_has m k \<longleftrightarrow> map_of m k \<noteq> None"
  by (simp add: map_has_def map_of_eq_None_iff)

lemma set_map_set: "set (map_set k v m) \<subseteq> insert (k, v) (set m)"
  by (induction m) (auto split: if_splits)

lemma process_pr_author:
  "map_of (process_pr w d pr cm) (login pr) =
     Some (add_comments d pr (track_state w pr (track_new w pr (entry_before cm (login pr)))))"
  by (auto simp: process_pr_def Let_def map_of_map_mutate map_of_map_set map_has_iff
      entry_before_def)

lemma process_pr_other: "a \<noteq> login pr \<Longrightarrow> map_of (process_pr w d pr cm) a = map_of cm a"
  by (auto simp: process_pr_def Let_def map_of_map_mutate map_of_map_set)

subsection \<open>Invariants of the loop\<close>

lemma process_prs_snoc:
  "process_prs w d (prs @ [pr]) = process_pr w d pr (process_prs w d prs)"
  by (simp add: process_prs_def)

lemma process_pr_preserves:
  assumes inv: "\<forall>(a, m) \<in> set cm. P m"
    and new: "P new_metrics"
    and step: "\<And>m. P m \<Longrightarrow> P (add_comments d pr (track_state w pr (track_new w pr m)))"
  shows "\<forall>(a, m) \<in> set (process_pr w d pr cm). P m"
proof -
  let ?cm1 = "if \<not> map_has cm (login pr) then map_set (login pr) new_metrics cm else cm"
  have "\<forall>(a, m) \<in> set ?cm1. P m"
    using inv new set_map_set[of "login pr" new_metrics cm] by auto
  then show ?thesis
    using step by (auto simp: process_pr_def map_mutate_def Let_def split: if_splits)
qed

lemma process_prs_preserves:
  assumes new: "P new_metrics"
    and step: "\<And>pr m. P m \<Longrightarrow> P (add_comments d pr (track_state w pr (track_new w pr m)))"
  shows "\<forall>(a, m) \<in> set (process_prs w d prs). P m"
proof (induction prs rule: rev_induct)
  case Nil
  then show ?case by (simp add: process_prs_def)
next
  case (snoc pr prs)
  show ?case unfolding process_prs_snoc
    by (rule process_pr_preserves[OF snoc new step])
qed

lemma step_counts_equal:
  "mergedPRCount m = mergedPRsThisWeek m \<Longrightarrow>
   mergedPRCount (add_comments d pr (track_state w pr (track_new w pr m))) =
   mergedPRsThisWeek (add_comments d pr (track_state w pr (track_new w pr m)))"
  by (cases "classify w pr")
    (simp_all add: add_comments_fields track_new_fields track_state_class)

lemma step_total_int:
  "totalMergeTime m \<in> \<int> \<Longrightarrow>
   totalMergeTime (add_comments d pr (track_state w pr (track_new w pr m))) \<in> \<int>"
  by (cases "classify w pr")
    (simp_all add: add_comments_fields track_new_fields track_state_class)

lemma counts_equal_all:
  "\<forall>(a, m) \<in> set (process_prs w d prs). mergedPRCount m = mergedPRsThisWeek m"
  by (rule process_prs_preserves) (simp_all add: new_metrics_def step_counts_equal)

lemma total_int_all: "\<forall>(a, m) \<in> set (process_prs w d prs). totalMergeTime m \<in> \<int>"
  by (rule process_prs_preserves) (simp_all add: new_metrics_def step_total_int)

subsection \<open>The sort\<close>

lemma compare_le_iff:
  "compare_metrics (snd x) (snd y) \<le> 0 \<longleftrightarrow> sort_key_of x \<le> sort_key_of y"
  by (auto simp: compare_metrics_def sort_key_of_def less_eq_prod_def)

lemma insert_sorted_insort:
  "insert_sorted (\<lambda>(_, a) (_, b). compare_metrics a b) x ys = insort_key sort_key_of x ys"
proof (induction ys)
  case Nil
  then show ?case by simp
next
  case (Cons y ys)
  have "(case x of (_, a) \<Rightarrow> \<lambda>(_, b). compare_metrics a b) y = compare_metrics (snd x) (snd y)"
    by (simp add: case_prod_unfold)
  with Cons show ?case by (simp add: compare_le_iff)
qed

lemma sortedContributors_sort_key: "sortedContributors cm = sort_key sort_key_of cm"
  by (induction cm) (simp_all add: sortedContributors_def array_sort_def insert_sorted_insort)

lemma outranks_iff: "outranks (snd x) (snd y) \<longleftrightarrow> sort_key_of x < sort_key_of y"
  by (auto simp: outranks_def sort_key_of_def less_prod_def)

lemma rank_keys_iff:
  "rank_keys (snd x) = k \<longleftrightarrow>
   sort_key_of x = (- int (fst k), - int (fst (snd k)), - int (snd (snd k)))"
  by (cases k) (auto simp: rank_keys_def sort_key_of_def)

lemma sorted_no_outrank:
  assumes "i < j" "j < length (sortedContributors cm)"
  shows "\<not> outranks (snd (sortedContributors cm ! j)) (snd (sortedContributors cm ! i))"
proof -
  let ?ys = "sortedContributors cm"
  have "sorted (map sort_key_of ?ys)" by (simp add: sortedContributors_sort_key)
  with assms have "map sort_key_of ?ys ! i \<le> map sort_key_of ?ys ! j"
    by (simp add: sorted_iff_nth_mono del: nth_map)
  with assms have "sort_key_of (?ys ! i) \<le> sort_key_of (?ys ! j)" by simp
  then show ?thesis by (simp add: outranks_iff not_less)
qed

lemma sorted_stable:
  "filter (\<lambda>e. rank_keys (snd e) = k) (sortedContributors cm) =
   filter (\<lambda>e. rank_keys (snd e) = k) cm"
  by (simp add: rank_keys_iff sortedContributors_sort_key sort_key_stable)

lemma sorted_mset: "mset (sortedContributors cm) = mset cm"
  by (simp add: sortedContributors_sort_key)

lemma sorted_tie_break:
  assumes "i < length (sortedContributors cm)" "j < length (sortedContributors cm)"
    "mergedPRsThisWeek (snd (sortedContributors cm ! i)) =
     mergedPRsThisWeek (snd (sortedContributors cm ! j))"
    "newPRsThisWeek (snd (sortedContributors cm ! j)) <
     newPRsThisWeek (snd (sortedContributors cm ! i))"
  shows "i < j"
proof (rule ccontr)
  assume "\<not> i < j"
  with assms(4) have "j < i" by (cases "i = j") auto
  from sorted_no_outrank[OF this assms(1)] assms(3,4) show False
    by (simp add: outranks_def)
qed

section \<open>Lemmas on the detail fetches\<close>

lemma details_iteration_Inr:
  "details_iteration octo repo n details = Inr (details(n \<mapsto> detail_for octo repo n))"
  by (simp add: details_iteration_def detail_for_def split: sum.split)

lemma details_loop_eq:
  "details_loop octo repo ns details =
     Inr (\<lambda>n. if n \<in> set ns then Some (detail_for octo repo n) else details n)"
proof (induction ns arbitrary: details)
  case Nil
  then show ?case by simp
next
  case (Cons n ns)
  show ?case by (simp add: details_iteration_Inr Cons fun_eq_iff)
qed

lemma fetchPRDetails_eq:
  "fetchPRDetails octo repo ns =
     Inr (\<lambda>n. if n \<in> set ns then Some (detail_for octo repo n) else None)"
  by (simp add: fetchPRDetails_def details_loop_eq)

lemma detail_for_fails: "fetch_fails octo repo n \<Longrightarrow> detail_for octo repo n = zero_detail"
  by (auto simp: fetch_fails_def detail_for_def try_details_def isl_def split: sum.splits)

lemma detail_for_same:
  "same_responses octo octo' repo n \<Longrightarrow> detail_for octo' repo n = detail_for octo repo n"
  by (auto simp: same_responses_def detail_for_def try_details_def split: sum.splits)

section \<open>The repository's test of calculatePRMetrics\<close>

lemma calculatePRMetrics_returns: "\<exists>m. calculatePRMetrics octo owner repo a b = Inr m"
  by (simp add: calculatePRMetrics_def fetchPRDetails_eq Let_def)

text \<open>
  The model gives what the test in \<open>__tests__/index.test.js\<close> expects for the range
  2024-02-01 to 2024-02-07 (read as UTC): two new pull requests, one merged, one open,
  and one record per author.
\<close>

lemma repository_test_scenario:
  "\<exists>m. calculatePRMetrics octokit_test ''testOwner'' ''testRepo'' 1706745600000 1707264000000
         = Inr m
     \<and> newPRs m = 2 \<and> mergedPRs m = 1 \<and> openPRs m = 1 \<and> avgTimeToMerge m = Num 24
     \<and> contributors m ''user1''
         = Some \<lparr>newPRs_c = 1, mergedPRs_c = 0, openPRs_c = 1, comments = 0\<rparr>
     \<and> contributors m ''user2''
         = Some \<lparr>newPRs_c = 1, mergedPRs_c = 1, openPRs_c = 0, comments = 0\<rparr>
     \<and> dom (contributors m) = {''user1'', ''user2''}"
  by (auto simp: calculatePRMetrics_def fetchPRDetails_eq fetchPRs_def octokit_test_def Let_def
      detail_for_def try_details_def metrics_of_def count_prs_def count_pr_def finish_def
      metrics.truncate_def initial_state_def isBetween_def isSame_def isAfter_def isBefore_def
      falsy_def get_property_def write_contributor_def objectPrototypeKeys_def diff_hours_def
      js_div_def new_contributor_def ex_defs dom_def)

section \<open>The claims\<close>

subsection \<open>C1: new pull requests and their split by author\<close>

text \<open>
  Claim C1. In the date-range mode \<open>newPRs\<close> is the number of pull requests created in
  the inclusive range, and the contributors' \<open>newPRs\<close> counts split that total by author
  handle. The total is as claimed (\<open>newPRs_counts_range\<close>), and so is the count of every
  handle that names no property of \<open>Object.prototype\<close> (\<open>contributor_newPRs_counts\<close>).
  For the handle \<open>constructor\<close> the read \<open>metrics.contributors[contributor]\<close> finds
  the inherited \<open>Object\<close> function, no record is created, and the new pull request is
  counted in the total and in no contributor's record: the table is empty while
  \<open>newPRs\<close> is 1.
\<close>

theorem constructor_login_gets_no_record:
  "newPRs (metrics_of
      [\<lparr>number = 1, repoName = ''repo'', state = ''open'', created_at = 5, merged_at = None,
        closed_at = None, updated_at = 5, login = ''constructor''\<rparr>] Map.empty 0 10) = 1
   \<and> contributors (metrics_of
      [\<lparr>number = 1, repoName = ''repo'', state = ''open'', created_at = 5, merged_at = None,
        closed_at = None, updated_at = 5, login = ''constructor''\<rparr>] Map.empty 0 10) = Map.empty"
  by (simp add: metrics_of_def count_prs_def count_pr_def finish_fields initial_state_def
      isBetween_def isSame_def isAfter_def isBefore_def Let_def falsy_def get_property_def
      write_contributor_def objectPrototypeKeys_def)

subsection \<open>C2: the ranking of the weekly table\<close>

text \<open>
  Claim C2. The sorted contributor table holds the same entries as the map; no later
  entry outranks an earlier one by merged, then new, then open pull requests (each
  descending); entries tied on all three keys keep their relative order; and of two
  entries with equally many merged pull requests the one with more new ones comes first.
\<close>

theorem ranking_order:
  "mset (sortedContributors cm) = mset cm
   \<and> (\<forall>i j. i < j \<and> j < length (sortedContributors cm)
         \<longrightarrow> \<not> outranks (snd (sortedContributors cm ! j)) (snd (sortedContributors cm ! i)))
   \<and> (\<forall>k. filter (\<lambda>e. rank_keys (snd e) = k) (sortedContributors cm)
            = filter (\<lambda>e. rank_keys (snd e) = k) cm)
   \<and> (\<forall>i j. i < length (sortedContributors cm) \<and> j < length (sortedContributors cm)
         \<and> mergedPRsThisWeek (snd (sortedContributors cm ! i))
             = mergedPRsThisWeek (snd (sortedContributors cm ! j))
         \<and> newPRsThisWeek (snd (sortedContributors cm ! j))
             < newPRsThisWeek (snd (sortedContributors cm ! i))
         \<longrightarrow> i < j)"
  using sorted_mset[of cm] sorted_no_outrank[of _ _ cm] sorted_stable[of _ cm]
    sorted_tie_break[of _ cm] by blast

theorem ranking_order_witness:
  "sortedContributors [(''u1'', metrics_example 3 2 0), (''u2'', metrics_example 3 5 0),
                       (''u3'', metrics_example 1 9 0)]
     = [(''u2'', metrics_example 3 5 0), (''u1'', metrics_example 3 2 0),
        (''u3'', metrics_example 1 9 0)]
   \<and> \<not> outranks (metrics_example 3 2 0) (metrics_example 3 5 0)
   \<and> \<not> outranks (metrics_example 1 9 0) (metrics_example 3 2 0)
   \<and> (0::nat) < 1"
  using ranking_order[of "[(''u1'', metrics_example 3 2 0), (''u2'', metrics_example 3 5 0),
                       (''u3'', metrics_example 1 9 0)]"]
  by (simp add: sortedContributors_def array_sort_def compare_metrics_def outranks_def ex_defs)

subsection \<open>C3: the four classes of the rolling week\<close>

text \<open>
  Claim C3. Processing one pull request counts it on its author's record in exactly one
  of four ways: as open (whatever the window), else as merged this week with its merge
  time and one merge sample, else as closed this week, else in none of the three
  counters. At most one of the three counters grows, and by one.
\<close>

theorem rolling_classes_exclusive:
  "map_of (process_pr w d pr cm) (login pr) \<noteq> None
   \<and> (let m = entry_before cm (login pr);
           m' = entry_before (process_pr w d pr cm) (login pr);
           k = classify w pr
       in openPRs_w m' = openPRs_w m + (if k = CountedOpen then 1 else 0)
          \<and> mergedPRsThisWeek m' = mergedPRsThisWeek m + (if k = MergedThisWeek then 1 else 0)
          \<and> mergedPRCount m' = mergedPRCount m + (if k = MergedThisWeek then 1 else 0)
          \<and> totalMergeTime m'
              = totalMergeTime m + (if k = MergedThisWeek then rat_of_int (merge_hours pr) else 0)
          \<and> closedPRsThisWeek m' = closedPRsThisWeek m + (if k = ClosedThisWeek then 1 else 0)
          \<and> openPRs_w m' + mergedPRsThisWeek m' + closedPRsThisWeek m'
              \<le> openPRs_w m + mergedPRsThisWeek m + closedPRsThisWeek m + 1)"
proof -
  have e: "entry_before (process_pr w d pr cm) (login pr)
      = add_comments d pr (track_state w pr (track_new w pr (entry_before cm (login pr))))"
    by (simp add: entry_before_def[of "process_pr w d pr cm"] process_pr_author)
  show ?thesis
    unfolding Let_def e
    by (cases "classify w pr")
      (simp_all add: process_pr_author add_comments_fields track_state_class track_new_fields)
qed

theorem rolling_classes_exclusive_witness:
  "classify 0 (pr_example 4 ''alice'' ''closed'' 100 (Some 5400100) (Some 5400100)) = MergedThisWeek
   \<and> map_of (process_pr 0 Map.empty
        (pr_example 4 ''alice'' ''closed'' 100 (Some 5400100) (Some 5400100)) []) ''alice''
      = Some \<lparr>newPRsThisWeek = 1, mergedPRsThisWeek = 1, openPRs_w = 0, closedPRsThisWeek = 0,
              totalComments_w = 0, mergedPRCount = 1, totalMergeTime = 1\<rparr>
   \<and> classify 0 (pr_example 5 ''alice'' ''open'' 100 (Some 5400100) (Some 5400100)) = CountedOpen
   \<and> classify 0 (pr_example 6 ''alice'' ''closed'' 100 None (Some 200)) = ClosedThisWeek
   \<and> classify 300 (pr_example 6 ''alice'' ''closed'' 100 None (Some 200)) = NotCounted"
  using rolling_classes_exclusive[of 0 Map.empty
      "pr_example 4 ''alice'' ''closed'' 100 (Some 5400100) (Some 5400100)" "[]"]
  by (simp add: classify_def process_pr_def map_has_def map_mutate_def entry_before_def
      track_new_def track_state_class add_comments_def merge_hours_def truncated_hours_def
      isAfter_def Let_def ex_defs)

subsection \<open>C4: pull requests created outside the range\<close>

text \<open>
  Claim C4. A pull request created outside the range leaves the whole state of the loop
  as it was: every counter, both time accumulators and the contributor table, with no
  key added. The metrics of a run are those of the run without that pull request.
\<close>

theorem out_of_range_pr_counts_nowhere:
  assumes "\<not> in_range start end' pr"
  shows "count_pr start end' prDetails pr s = s
    \<and> metrics_of (before @ pr # after) prDetails start end'
        = metrics_of (before @ after) prDetails start end'"
proof -
  have step: "\<And>t. count_pr start end' prDetails pr t = t"
    using assms by (simp add: count_pr_out isBetween_iff)
  have "count_prs start end' prDetails (before @ pr # after) initial_state
      = count_prs start end' prDetails (before @ after) initial_state"
    by (simp add: count_prs_def step)
  with step show ?thesis by (simp add: metrics_of_def)
qed

theorem out_of_range_pr_counts_nowhere_witness:
  "\<not> in_range 10 20
      \<lparr>number = 2, repoName = ''repo'', state = ''closed'', created_at = 5, merged_at = Some 15,
       closed_at = Some 15, updated_at = 15, login = ''bob''\<rparr>
   \<and> count_pr 10 20 Map.empty
      \<lparr>number = 2, repoName = ''repo'', state = ''closed'', created_at = 5, merged_at = Some 15,
       closed_at = Some 15, updated_at = 15, login = ''bob''\<rparr> initial_state = initial_state
   \<and> metrics_of
       ([] @ \<lparr>number = 2, repoName = ''repo'', state = ''closed'', created_at = 5,
               merged_at = Some 15, closed_at = Some 15, updated_at = 15, login = ''bob''\<rparr> # [])
       Map.empty 10 20
     = metrics_of ([] @ []) Map.empty 10 20"
  using out_of_range_pr_counts_nowhere[of 10 20
      "\<lparr>number = 2, repoName = ''repo'', state = ''closed'', created_at = 5, merged_at = Some 15,
       closed_at = Some 15, updated_at = 15, login = ''bob''\<rparr>" Map.empty initial_state "[]" "[]"]
  by (simp add: in_range_def)

subsection \<open>C5: merged and open against new\<close>

text \<open>
  Claim C5 states that some input gives \<open>mergedPRs + openPRs > newPRs\<close> in the
  date-range mode. No input does: the two counters grow only inside the branch that has
  just counted the pull request as new, and at most one of them per pull request.
\<close>

theorem no_input_exceeds_new:
  "\<not> (\<exists>prs prDetails start end'.
        newPRs (metrics_of prs prDetails start end')
          < mergedPRs (metrics_of prs prDetails start end')
            + openPRs (metrics_of prs prDetails start end'))"
  using metrics_of_headroom by (simp add: not_less)

text \<open>
  Claim C5, amended. In the date-range mode \<open>mergedPRs + openPRs \<le> newPRs\<close> for every
  list of pull requests, every detail map and every range.
\<close>

theorem merged_plus_open_within_new:
  "mergedPRs (metrics_of prs prDetails start end') + openPRs (metrics_of prs prDetails start end')
     \<le> newPRs (metrics_of prs prDetails start end')"
  by (rule metrics_of_headroom)

theorem merged_plus_open_within_new_witness:
  "mergedPRs (metrics_of [pr_example 1 ''alice'' ''open'' 5 None None,
                          pr_example 2 ''bob'' ''closed'' 6 (Some 8) (Some 8),
                          pr_example 3 ''bob'' ''closed'' 50 (Some 60) (Some 60)] Map.empty 0 10)
     + openPRs (metrics_of [pr_example 1 ''alice'' ''open'' 5 None None,
                          pr_example 2 ''bob'' ''closed'' 6 (Some 8) (Some 8),
                          pr_example 3 ''bob'' ''closed'' 50 (Some 60) (Some 60)] Map.empty 0 10)
     \<le> newPRs (metrics_of [pr_example 1 ''alice'' ''open'' 5 None None,
                          pr_example 2 ''bob'' ''closed'' 6 (Some 8) (Some 8),
                          pr_example 3 ''bob'' ''closed'' 50 (Some 60) (Some 60)] Map.empty 0 10)
   \<and> newPRs (metrics_of [pr_example 1 ''alice'' ''open'' 5 None None,
                          pr_example 2 ''bob'' ''closed'' 6 (Some 8) (Some 8),
                          pr_example 3 ''bob'' ''closed'' 50 (Some 60) (Some 60)] Map.empty 0 10) = 2"
  using merged_plus_open_within_new[of "[pr_example 1 ''alice'' ''open'' 5 None None,
                          pr_example 2 ''bob'' ''closed'' 6 (Some 8) (Some 8),
                          pr_example 3 ''bob'' ''closed'' 50 (Some 60) (Some 60)]" Map.empty 0 10]
  by (simp add: newPRs_counts_range in_range_def ex_defs)

subsection \<open>C6: the comments of a contributor are overwritten\<close>

text \<open>
  Claim C6. In the date-range mode each contributor record ends with the
  \<open>totalComments\<close> of the last new pull request of that contributor that has a detail
  record (and \<open>0\<close> when none has), not with a sum; and each new pull request with a
  detail record assigns its \<open>totalComments\<close> to the record of its author.
\<close>

theorem comments_of_last_examined:
  "(contributors (metrics_of prs prDetails start end') h = Some c
      \<longrightarrow> comments c = last_comments prDetails (new_by start end' h prs))
   \<and> (in_range start end' pr \<and> contributors s (login pr) = Some c'
        \<and> prDetails (number pr) = Some details
      \<longrightarrow> (\<exists>c''. contributors (count_pr start end' prDetails pr s) (login pr) = Some c''
              \<and> comments c'' = totalComments details))"
proof (intro conjI impI)
  assume "contributors (metrics_of prs prDetails start end') h = Some c"
  then show "comments c = last_comments prDetails (new_by start end' h prs)"
    by (auto simp: metrics_of_contributors expected_contributor_def split: if_splits)
next
  assume a: "in_range start end' pr \<and> contributors s (login pr) = Some c'
        \<and> prDetails (number pr) = Some details"
  then have "contributors (count_pr start end' prDetails pr s) (login pr)
      = Some (step_contributor prDetails pr c')"
    by (simp add: count_pr_contributors_own isBetween_iff)
  with a show "\<exists>c''. contributors (count_pr start end' prDetails pr s) (login pr) = Some c''
              \<and> comments c'' = totalComments details"
    by (simp add: step_contributor_def)
qed

theorem comments_of_last_examined_witness:
  "contributors
     (metrics_of [pr_example 1 ''alice'' ''open'' 5 None None,
                  pr_example 2 ''alice'' ''open'' 6 None None]
        [1 \<mapsto> detail_example 3, 2 \<mapsto> detail_example 2] 0 10) ''alice''
     = Some \<lparr>newPRs_c = 2, mergedPRs_c = 0, openPRs_c = 2, comments = 2\<rparr>
   \<and> last_comments [1 \<mapsto> detail_example 3, 2 \<mapsto> detail_example 2]
        (new_by 0 10 ''alice'' [pr_example 1 ''alice'' ''open'' 5 None None,
                                pr_example 2 ''alice'' ''open'' 6 None None]) = 2
   \<and> in_range 0 10 (pr_example 2 ''alice'' ''open'' 6 None None)
   \<and> (\<exists>c''. contributors
         (count_pr 0 10 [1 \<mapsto> detail_example 3, 2 \<mapsto> detail_example 2]
            (pr_example 2 ''alice'' ''open'' 6 None None)
            (initial_state\<lparr>contributors :=
               [''alice'' \<mapsto> \<lparr>newPRs_c = 1, mergedPRs_c = 0, openPRs_c = 1, comments = 3\<rparr>]\<rparr>))
         ''alice'' = Some c'' \<and> comments c'' = 2)"
  using comments_of_last_examined[of
      "[pr_example 1 ''alice'' ''open'' 5 None None, pr_example 2 ''alice'' ''open'' 6 None None]"
      "[1 \<mapsto> detail_example 3, 2 \<mapsto> detail_example 2]" 0 10 "''alice''"
      "\<lparr>newPRs_c = 2, mergedPRs_c = 0, openPRs_c = 2, comments = 2\<rparr>"
      "pr_example 2 ''alice'' ''open'' 6 None None"
      "initial_state\<lparr>contributors :=
               [''alice'' \<mapsto> \<lparr>newPRs_c = 1, mergedPRs_c = 0, openPRs_c = 1, comments = 3\<rparr>]\<rparr>"
      "\<lparr>newPRs_c = 1, mergedPRs_c = 0, openPRs_c = 1, comments = 3\<rparr>"
      "detail_example 2"]
  by (simp add: metrics_of_contributors new_by_def in_range_def expected_contributor_def
      last_comments_def objectPrototypeKeys_def ex_defs)

subsection \<open>C7: merge samples and merged pull requests\<close>

text \<open>
  Claim C7. After every pull request of the weekly loop, and at its end, each contributor
  record has \<open>mergedPRCount = mergedPRsThisWeek\<close>: the state chain adds one to both
  for a pull request merged this week and to neither otherwise.
\<close>

theorem merge_samples_match_merged_count:
  "(\<forall>n. \<forall>(a, m) \<in> set (process_prs w d (take n allPRs)).
        mergedPRCount m = mergedPRsThisWeek m)
   \<and> (\<forall>(a, m) \<in> set (process_prs w d allPRs). mergedPRCount m = mergedPRsThisWeek m)
   \<and> mergedPRCount (track_state w pr m0)
        = mergedPRCount m0 + (if classify w pr = MergedThisWeek then 1 else 0)
   \<and> mergedPRsThisWeek (track_state w pr m0)
        = mergedPRsThisWeek m0 + (if classify w pr = MergedThisWeek then 1 else 0)"
proof -
  have "mergedPRCount (track_state w pr m0)
        = mergedPRCount m0 + (if classify w pr = MergedThisWeek then 1 else 0)"
    "mergedPRsThisWeek (track_state w pr m0)
        = mergedPRsThisWeek m0 + (if classify w pr = MergedThisWeek then 1 else 0)"
    by (cases "classify w pr"; simp add: track_state_class)+
  then show ?thesis using counts_equal_all by blast
qed

theorem merge_samples_match_merged_count_witness:
  "map (\<lambda>(a, m). (a, mergedPRsThisWeek m, mergedPRCount m))
     (process_prs 0 Map.empty
        [pr_example 4 ''alice'' ''closed'' 100 (Some 5400100) (Some 5400100),
         pr_example 5 ''bob'' ''open'' 100 None None,
         pr_example 7 ''alice'' ''closed'' 100 (Some 200) (Some 200)])
     = [(''alice'', 2, 2), (''bob'', 0, 0)]"
  using merge_samples_match_merged_count[of 0 Map.empty
        "[pr_example 4 ''alice'' ''closed'' 100 (Some 5400100) (Some 5400100),
         pr_example 5 ''bob'' ''open'' 100 None None,
         pr_example 7 ''alice'' ''closed'' 100 (Some 200) (Some 200)]"]
  by (simp add: process_prs_def process_pr_def map_has_def map_mutate_def track_new_def
      track_state_def track_closed_def add_comments_def isAfter_def diff_hours_def absFloor_def
      Let_def ex_defs)

subsection \<open>C8: a failing detail fetch\<close>

text \<open>
  Claim C8. \<open>fetchPRDetails\<close> always returns a map, with an entry for exactly the
  requested numbers. A number whose fetch fails is mapped to the all-zero record, and the
  entry of a number depends on the answers for that number alone: a client that answers
  alike for it gives the same entry, whatever it answers for the other numbers.
\<close>

theorem detail_failure_is_isolated:
  "\<exists>details. fetchPRDetails octo repo prNumbers = Inr details
     \<and> dom details = set prNumbers
     \<and> (\<forall>n \<in> set prNumbers.
          (fetch_fails octo repo n \<longrightarrow> details n = Some zero_detail)
          \<and> (\<forall>octo'. same_responses octo octo' repo n
                \<longrightarrow> (\<exists>details'. fetchPRDetails octo' repo prNumbers = Inr details'
                       \<and> details' n = details n)))"
  by (auto simp: fetchPRDetails_eq detail_for_fails detail_for_same dom_def)

theorem detail_failure_is_isolated_witness:
  "fetch_fails octokit_example ''repo1'' 123
   \<and> same_responses octokit_example octokit_failing_others ''repo1'' 7
   \<and> (\<exists>details. fetchPRDetails octokit_example ''repo1'' [123, 7] = Inr details
         \<and> dom details = {123, 7}
         \<and> details 123 = Some zero_detail
         \<and> details 7 = Some \<lparr>totalComments = 3, reviewComments = 1, discussionComments = 2,
                              reviews = 2, approvals = 1, changesRequested = 1\<rparr>
         \<and> (\<exists>details'. fetchPRDetails octokit_failing_others ''repo1'' [123, 7] = Inr details'
               \<and> details' 7 = details 7))"
  using detail_failure_is_isolated[of octokit_example "''repo1''" "[123, 7]"]
  by (auto simp: fetchPRDetails_eq detail_for_def try_details_def fetch_fails_def
      same_responses_def octokit_example_def octokit_failing_others_def zero_detail_def dom_def)

subsection \<open>C9: the average time to merge without samples\<close>

text \<open>
  Claim C9. With no merge sample the date-range mode returns the average \<open>0\<close>, which
  the report prints as \<open>N/A\<close>, and the weekly table and summary print \<open>0.0\<close>. The
  division is only made by a positive count: the returned average is always a finite
  number, and the weekly cell formats a finite quotient.
\<close>

theorem average_is_zero_without_samples:
  "(mergedCount (count_prs start end' prDetails prs initial_state) = 0
      \<longrightarrow> avgTimeToMerge (metrics_of prs prDetails start end') = Num 0
          \<and> avgTimeToMerge_line toFixed1 (metrics_of prs prDetails start end')
              = ''- Average Time to Merge: N/A'')
   \<and> (\<exists>q. avgTimeToMerge (metrics_of prs prDetails start end') = Num q)
   \<and> (mergedPRCount m = 0 \<longrightarrow> avgTimeToMerge_cell toFixed1 m = ''0.0'')
   \<and> (0 < mergedPRCount m \<longrightarrow>
        avgTimeToMerge_cell toFixed1 m
          = toFixed1 (Num (totalMergeTime m / of_nat (mergedPRCount m))))
   \<and> (mergedPRCount (totalMetrics cm) = 0 \<longrightarrow> overallAvgTimeToMerge toFixed1 cm = ''0.0'')"
  by (simp add: metrics_of_def finish_def metrics.truncate_def avgTimeToMerge_line_def
      avgTimeToMerge_cell_def overallAvgTimeToMerge_def js_div_def)

theorem average_is_zero_without_samples_witness:
  "mergedCount (count_prs 0 10 Map.empty [pr_example 1 ''alice'' ''open'' 5 None None] initial_state) = 0
   \<and> avgTimeToMerge (metrics_of [pr_example 1 ''alice'' ''open'' 5 None None] Map.empty 0 10) = Num 0
   \<and> avgTimeToMerge_line (\<lambda>x. ''1.5'')
        (metrics_of [pr_example 1 ''alice'' ''open'' 5 None None] Map.empty 0 10)
       = ''- Average Time to Merge: N/A''
   \<and> mergedPRCount (metrics_example 0 1 1) = 0
   \<and> avgTimeToMerge_cell (\<lambda>x. ''1.5'') (metrics_example 0 1 1) = ''0.0''
   \<and> 0 < mergedPRCount ((metrics_example 2 0 0)\<lparr>totalMergeTime := 3\<rparr>)
   \<and> avgTimeToMerge_cell (\<lambda>x. ''1.5'') ((metrics_example 2 0 0)\<lparr>totalMergeTime := 3\<rparr>) = ''1.5''
   \<and> mergedPRCount (totalMetrics [(''alice'', metrics_example 0 1 1)]) = 0
   \<and> overallAvgTimeToMerge (\<lambda>x. ''1.5'') [(''alice'', metrics_example 0 1 1)] = ''0.0''"
  using average_is_zero_without_samples[of 0 10 Map.empty
      "[pr_example 1 ''alice'' ''open'' 5 None None]" "\<lambda>x. ''1.5''" "metrics_example 0 1 1"
      "[(''alice'', metrics_example 0 1 1)]"]
    average_is_zero_without_samples[of 0 10 Map.empty
      "[pr_example 1 ''alice'' ''open'' 5 None None]" "\<lambda>x. ''1.5''"
      "(metrics_example 2 0 0)\<lparr>totalMergeTime := 3\<rparr>" "[(''alice'', metrics_example 0 1 1)]"]
  by (simp add: count_prs_def count_pr_def isBetween_iff in_range_def Let_def initial_state_def
      totalMetrics_def avgTimeToMerge_cell_def ex_defs)

subsection \<open>C10: whole hours in the rolling week\<close>

text \<open>
  Claim C10. In the weekly loop the time added for a merged pull request is the hour
  difference truncated toward zero, so every contributor's \<open>totalMergeTime\<close> is an
  integer; the date-range mode adds the exact fraction of hours.
\<close>

theorem rolling_merge_time_is_whole_hours:
  "(\<forall>(a, m) \<in> set (process_prs w d allPRs). totalMergeTime m \<in> \<int>)
   \<and> (classify w pr = MergedThisWeek \<longrightarrow>
        totalMergeTime (track_state w pr m0)
          = totalMergeTime m0 + rat_of_int (merge_hours pr))
   \<and> (in_range start end' pr \<and> state pr \<noteq> ''open'' \<and> merged_at pr = Some t \<longrightarrow>
        totalMergeTime_b (count_pr start end' prDetails pr s)
          = totalMergeTime_b s + rat_of_int (t - created_at pr) / 3600000)"
proof (intro conjI impI)
  show "\<forall>(a, m) \<in> set (process_prs w d allPRs). totalMergeTime m \<in> \<int>"
    by (rule total_int_all)
next
  assume "classify w pr = MergedThisWeek"
  then show "totalMergeTime (track_state w pr m0)
          = totalMergeTime m0 + rat_of_int (merge_hours pr)"
    by (simp add: track_state_class)
next
  assume "in_range start end' pr \<and> state pr \<noteq> ''open'' \<and> merged_at pr = Some t"
  then show "totalMergeTime_b (count_pr start end' prDetails pr s)
          = totalMergeTime_b s + rat_of_int (t - created_at pr) / 3600000"
    by (simp add: count_pr_def Let_def isBetween_iff diff_hours_def split: option.split)
qed

theorem rolling_merge_time_is_whole_hours_witness:
  "map (\<lambda>(a, m). (a, totalMergeTime m))
     (process_prs 0 Map.empty
        [pr_example 4 ''alice'' ''closed'' 100 (Some 5400100) (Some 5400100)])
     = [(''alice'', 1)]
   \<and> classify 0 (pr_example 4 ''alice'' ''closed'' 100 (Some 5400100) (Some 5400100)) = MergedThisWeek
   \<and> merge_hours (pr_example 4 ''alice'' ''closed'' 100 (Some 5400100) (Some 5400100)) = 1
   \<and> in_range 0 1000 (pr_example 4 ''alice'' ''closed'' 100 (Some 5400100) (Some 5400100))
   \<and> totalMergeTime_b
        (count_pr 0 1000 Map.empty
           (pr_example 4 ''alice'' ''closed'' 100 (Some 5400100) (Some 5400100)) initial_state)
      = 3 / 2"
  using rolling_merge_time_is_whole_hours[of 0 Map.empty
        "[pr_example 4 ''alice'' ''closed'' 100 (Some 5400100) (Some 5400100)]"
        "pr_example 4 ''alice'' ''closed'' 100 (Some 5400100) (Some 5400100)" new_metrics
        0 1000 5400100 Map.empty initial_state]
  by (simp add: process_prs_def process_pr_def map_has_def map_mutate_def track_new_def
      track_state_class add_comments_def classify_def merge_hours_def truncated_hours_def
      isAfter_def in_range_def initial_state_def Let_def ex_defs)

end
